theory Spec2Isabelle
  imports Complex_Main "HOL-Library.Sublist" "HOL-Library.Char_ord" "HOL-Library.List_Lexorder"
begin

section \<open>Strings\<close>

text \<open>
  A Python \<open>str\<close> is embedded as a \<open>string\<close>: every \<open>char\<close> stands for the code point
  of the same number, so the embedding covers the strings over U+0000 .. U+00FF.
\<close>

definition ord :: "char \<Rightarrow> nat" where
  "ord c = of_char c"

text \<open>\<open>str.isspace\<close> on one code point below 256, as \<open>str.strip()\<close> uses it.\<close>

definition isspace :: "char \<Rightarrow> bool" where
  "isspace c = ((9 \<le> ord c \<and> ord c \<le> 13) \<or> (28 \<le> ord c \<and> ord c \<le> 32)
                \<or> ord c = 133 \<or> ord c = 160)"

text \<open>\<open>s.strip()\<close>: leading and trailing whitespace removed.\<close>

definition strip :: "string \<Rightarrow> string" where
  "strip s = rev (dropWhile isspace (rev (dropWhile isspace s)))"

text \<open>The regular-expression classes \<open>[A-Z]\<close>, \<open>[A-Za-z]\<close> and \<open>\d\<close> (below 256, the
  decimal digits of Unicode are the ASCII ones).\<close>

definition re_upper :: "char \<Rightarrow> bool" where
  "re_upper c = (65 \<le> ord c \<and> ord c \<le> 90)"

definition re_letter :: "char \<Rightarrow> bool" where
  "re_letter c = ((65 \<le> ord c \<and> ord c \<le> 90) \<or> (97 \<le> ord c \<and> ord c \<le> 122))"

definition re_digit :: "char \<Rightarrow> bool" where
  "re_digit c = (48 \<le> ord c \<and> ord c \<le> 57)"

text \<open>
  \<open>re.match(r'^[A-Z]{2}-\d{4}$', s)\<close>. Without \<open>re.MULTILINE\<close> the anchor \<open>$\<close> matches at
  the end of the string and also just before a newline that ends the string.
\<close>

fun re_match_id :: "string \<Rightarrow> bool" where
  "re_match_id (a # b # h # d1 # d2 # d3 # d4 # rest) =
     (re_upper a \<and> re_upper b \<and> h = CHR ''-'' \<and>
      re_digit d1 \<and> re_digit d2 \<and> re_digit d3 \<and> re_digit d4 \<and>
      (rest = [] \<or> rest = [CHR 0x0A]))"
| "re_match_id _ = False"

section \<open>The mineral schema (catalog.py)\<close>

datatype RarityType = COMMON | UNCOMMON | RARE | EXTREMELY_RARE

text \<open>The member's value; for this enumeration it is also the member's name, the text
  that the \<open>Enum\<close> column stores.\<close>

fun RarityType_value :: "RarityType \<Rightarrow> string" where
  "RarityType_value COMMON = ''COMMON''"
| "RarityType_value UNCOMMON = ''UNCOMMON''"
| "RarityType_value RARE = ''RARE''"
| "RarityType_value EXTREMELY_RARE = ''EXTREMELY_RARE''"

text \<open>
  The pydantic model \<open>Mineral\<close>; a row of \<open>MineralDB\<close> has the same eight columns and is
  embedded as the same record. The two \<open>float\<close> fields are embedded as reals: the
  validators only compare them with constants.
\<close>

record Mineral =
  catalog_id :: string
  name :: string
  chemical_formula :: string
  hardness :: real
  weight_carats :: real
  rarity :: RarityType
  origin_country :: string
  specimens_count :: int

text \<open>A validator either raises \<open>ValueError\<close> or returns the value pydantic stores in the
  field.\<close>

datatype ValueError = ValueError

definition validator_catalog_id :: "string \<Rightarrow> ValueError + string" where
  "validator_catalog_id cid = (if \<not> re_match_id cid then Inl ValueError else Inr cid)"

definition Mineral_validator_name :: "string \<Rightarrow> ValueError + string" where
  "Mineral_validator_name n = (if length (strip n) < 3 then Inl ValueError else Inr n)"

definition validator_formula :: "string \<Rightarrow> ValueError + string" where
  "validator_formula f =
     (if \<not> list_ex re_letter f \<or> \<not> list_ex re_digit f then Inl ValueError else Inr f)"

definition validator_hardness :: "real \<Rightarrow> ValueError + real" where
  "validator_hardness h = (if h < 1.0 \<or> h > 10.0 then Inl ValueError else Inr h)"

definition validator_weight :: "real \<Rightarrow> ValueError + real" where
  "validator_weight w = (if w \<le> 0 then Inl ValueError else Inr w)"

definition validator_country :: "string \<Rightarrow> ValueError + string" where
  "validator_country c = (if length (strip c) < 2 then Inl ValueError else Inr c)"

definition validator_count :: "int \<Rightarrow> ValueError + int" where
  "validator_count n = (if n < 0 then Inl ValueError else Inr n)"

text \<open>The entry of pydantic's error list for one field: its name if the validator raised.\<close>

definition field_error :: "string \<Rightarrow> ValueError + 'a \<Rightarrow> string list" where
  "field_error fld r = (case r of Inl _ \<Rightarrow> [fld] | Inr _ \<Rightarrow> [])"

text \<open>
  Building a \<open>Mineral\<close> from a candidate: pydantic runs the fields in the order of their
  declaration, each through its validator, collects the failing fields in that order, and
  raises one validation error that lists them; with no failure the model holds the values
  the validators returned. The candidate is taken to be well typed (its \<open>rarity\<close> is a
  member of the enumeration), so only the validators of the source can fail.
\<close>

definition validate_Mineral :: "Mineral \<Rightarrow> string list + Mineral" where
  "validate_Mineral m =
     (let r1 = validator_catalog_id (catalog_id m);
          r2 = Mineral_validator_name (Mineral.name m);
          r3 = validator_formula (chemical_formula m);
          r4 = validator_hardness (hardness m);
          r5 = validator_weight (weight_carats m);
          r7 = validator_country (origin_country m);
          r8 = validator_count (specimens_count m)
      in case (r1, r2, r3, r4, r5, r7, r8) of
           (Inr v1, Inr v2, Inr v3, Inr v4, Inr v5, Inr v7, Inr v8) \<Rightarrow>
             Inr \<lparr>catalog_id = v1, name = v2, chemical_formula = v3, hardness = v4,
                  weight_carats = v5, rarity = Mineral.rarity m, origin_country = v7,
                  specimens_count = v8\<rparr>
         | _ \<Rightarrow>
             Inl (field_error ''catalog_id'' r1 @ field_error ''name'' r2 @
                  field_error ''chemical_formula'' r3 @ field_error ''hardness'' r4 @
                  field_error ''weight_carats'' r5 @ field_error ''origin_country'' r7 @
                  field_error ''specimens_count'' r8))"

section \<open>The game schema (Game.py)\<close>

datatype RatingType = PEGI_3 | PEGI_7 | PEGI_12 | PEGI_16 | PEGI_18

text \<open>The member's value, which the export renders.\<close>

fun RatingType_value :: "RatingType \<Rightarrow> string" where
  "RatingType_value PEGI_3 = ''PEGI 3''"
| "RatingType_value PEGI_7 = ''PEGI 7''"
| "RatingType_value PEGI_12 = ''PEGI 12''"
| "RatingType_value PEGI_16 = ''PEGI 16''"
| "RatingType_value PEGI_18 = ''PEGI 18''"

text \<open>The member's name: an \<open>Enum\<close> column built from an enumeration class stores the
  names of the members, so this is the text the store compares and orders.\<close>

fun RatingType_name :: "RatingType \<Rightarrow> string" where
  "RatingType_name PEGI_3 = ''PEGI_3''"
| "RatingType_name PEGI_7 = ''PEGI_7''"
| "RatingType_name PEGI_12 = ''PEGI_12''"
| "RatingType_name PEGI_16 = ''PEGI_16''"
| "RatingType_name PEGI_18 = ''PEGI_18''"

text \<open>A \<open>datetime\<close> without time zone, as the instant it denotes, in microseconds; the
  validator compares it with \<open>datetime.now()\<close>, which is of this kind.\<close>

type_synonym datetime = int

record Games =
  game_id :: string
  name :: string
  genre :: string
  platform :: string
  release_date :: datetime
  rating :: RatingType
  description :: string

definition validator_game_id :: "string \<Rightarrow> ValueError + string" where
  "validator_game_id gid = (if \<not> re_match_id gid then Inl ValueError else Inr gid)"

definition Games_validator_name :: "string \<Rightarrow> ValueError + string" where
  "Games_validator_name n = (if length (strip n) < 3 then Inl ValueError else Inr n)"

definition validator_description :: "string \<Rightarrow> ValueError + string" where
  "validator_description d = (if length (strip d) < 20 then Inl ValueError else Inr d)"

definition validator_genre :: "string \<Rightarrow> ValueError + string" where
  "validator_genre g = (if length (strip g) < 3 then Inl ValueError else Inr g)"

definition validator_platform :: "string \<Rightarrow> ValueError + string" where
  "validator_platform p = (if length (strip p) < 3 then Inl ValueError else Inr p)"

text \<open>The first argument is the value of \<open>datetime.now()\<close> when the validator runs.\<close>

definition validator_release_date :: "datetime \<Rightarrow> datetime \<Rightarrow> ValueError + datetime" where
  "validator_release_date now d = (if d > now then Inl ValueError else Inr d)"

text \<open>Building a \<open>Games\<close> from a well-typed candidate, the fields in the order of their
  declaration (which is not the order in which the class lists its validators).\<close>

definition validate_Games :: "datetime \<Rightarrow> Games \<Rightarrow> string list + Games" where
  "validate_Games now g =
     (let r1 = validator_game_id (game_id g);
          r2 = Games_validator_name (Games.name g);
          r3 = validator_genre (genre g);
          r4 = validator_platform (platform g);
          r5 = validator_release_date now (release_date g);
          r7 = validator_description (description g)
      in case (r1, r2, r3, r4, r5, r7) of
           (Inr v1, Inr v2, Inr v3, Inr v4, Inr v5, Inr v7) \<Rightarrow>
             Inr \<lparr>game_id = v1, name = v2, genre = v3, platform = v4, release_date = v5,
                  rating = Games.rating g, description = v7\<rparr>
         | _ \<Rightarrow>
             Inl (field_error ''game_id'' r1 @ field_error ''name'' r2 @
                  field_error ''genre'' r3 @ field_error ''platform'' r4 @
                  field_error ''release_date'' r5 @ field_error ''description'' r7))"

section \<open>Errors\<close>

text \<open>
  The \<open>detail\<close> texts of the handlers' \<open>HTTPException\<close>s are Russian sentences; each is
  named here by what it says: a record with this identifier already exists, the identifiers
  of path and body differ, the record was not found, the export format is not supported.
\<close>

datatype detail = AlreadyExists | IdMismatch | NotFound | UnsupportedFormat

text \<open>
  What a request can end with instead of a result: an \<open>HTTPException\<close> a handler raises
  (status code and detail), the validation error of a request body (the failing fields),
  or the \<open>AttributeError\<close> of a \<open>getattr\<close>, which no handler catches.
\<close>

datatype error =
    HTTPException nat detail
  | RequestValidationError "string list"
  | AttributeError

section \<open>The store's text operations\<close>

text \<open>SQL \<open>lower\<close> as the store has it: only the ASCII letters change.\<close>

definition sql_lower :: "char \<Rightarrow> char" where
  "sql_lower c = (if re_upper c then char_of (ord c + 32) else c)"

text \<open>
  \<open>lower(text) LIKE lower(pattern)\<close>, which is what \<open>column.ilike(pattern)\<close> becomes: in the
  pattern \<open>%\<close> stands for any run of characters and \<open>_\<close> for any one character; there is
  no escape character. The first argument is the pattern.
\<close>

fun ilike :: "string \<Rightarrow> string \<Rightarrow> bool" where
  "ilike [] [] = True"
| "ilike [] (c # cs) = False"
| "ilike (p # ps) [] = (p = CHR ''%'' \<and> ilike ps [])"
| "ilike (p # ps) (c # cs) =
     (if p = CHR ''%'' then ilike ps (c # cs) \<or> ilike (p # ps) cs
      else (p = CHR ''_'' \<or> sql_lower p = sql_lower c) \<and> ilike ps cs)"

text \<open>The decimal text of an integer, as a cast of an integer column to text gives it.\<close>

function dec_digits :: "nat \<Rightarrow> string" where
  "dec_digits n =
     (if n < 10 then [char_of (48 + n)] else dec_digits (n div 10) @ [char_of (48 + n mod 10)])"
  by pat_completeness auto
termination
  by (relation "measure id") auto

declare dec_digits.simps [simp del]

definition int_text :: "int \<Rightarrow> string" where
  "int_text i = (if i < 0 then CHR ''-'' # dec_digits (nat (- i)) else dec_digits (nat i))"

text \<open>\<open>query.offset(off).limit(cnt)\<close> on the rows in query order: the store reads a
  negative offset as zero and a negative limit as no limit.\<close>

definition offset_limit :: "int \<Rightarrow> int \<Rightarrow> 'a list \<Rightarrow> 'a list" where
  "offset_limit off cnt rows =
     (let rest = drop (nat off) rows in if cnt < 0 then rest else take (nat cnt) rest)"

text \<open>\<open>order_by(column)\<close> and \<open>order_by(column.desc())\<close> for a column read by \<open>key\<close>. The
  store leaves the order of rows with equal keys open; the embedding keeps them in query
  order.\<close>

definition order_by_asc :: "('a \<Rightarrow> 'k::linorder) \<Rightarrow> 'a list \<Rightarrow> 'a list" where
  "order_by_asc key rows = sort_key key rows"

definition order_by_desc :: "('a \<Rightarrow> 'k::linorder) \<Rightarrow> 'a list \<Rightarrow> 'a list" where
  "order_by_desc key rows = rev (sort_key key (rev rows))"

text \<open>The truth value of an optional string parameter: \<open>None\<close> and the empty string are
  false.\<close>

definition truthy :: "string option \<Rightarrow> bool" where
  "truthy p = (case p of None \<Rightarrow> False | Some s \<Rightarrow> s \<noteq> [])"

text \<open>The answer of a list endpoint: the message's two numbers (how many records, which
  page) and the records.\<close>

record 'a listing =
  found :: nat
  page_no :: int
  data :: "'a list"

section \<open>The mineral endpoints (catalog.py)\<close>

text \<open>The table \<open>minerals\<close>: its rows in the order in which a query without \<open>order_by\<close>
  returns them. \<open>catalog_id\<close> is the primary key.\<close>

type_synonym mineral_store = "Mineral list"

datatype MineralDB_column =
    Col_catalog_id | Col_name | Col_chemical_formula | Col_hardness
  | Col_weight_carats | Col_rarity | Col_origin_country | Col_specimens_count

text \<open>\<open>getattr(MineralDB, name)\<close> over the attributes the class declares, its eight
  columns; for any other name the lookup raises \<open>AttributeError\<close>. (Attributes the class
  inherits from the declarative base are no columns and are not part of the embedding.)\<close>

definition MineralDB_getattr :: "string \<Rightarrow> error + MineralDB_column" where
  "MineralDB_getattr a =
     (if a = ''catalog_id'' then Inr Col_catalog_id
      else if a = ''name'' then Inr Col_name
      else if a = ''chemical_formula'' then Inr Col_chemical_formula
      else if a = ''hardness'' then Inr Col_hardness
      else if a = ''weight_carats'' then Inr Col_weight_carats
      else if a = ''rarity'' then Inr Col_rarity
      else if a = ''origin_country'' then Inr Col_origin_country
      else if a = ''specimens_count'' then Inr Col_specimens_count
      else Inl AttributeError)"

fun MineralDB_order_by :: "bool \<Rightarrow> MineralDB_column \<Rightarrow> Mineral list \<Rightarrow> Mineral list" where
  "MineralDB_order_by d Col_catalog_id q = (if d then order_by_desc else order_by_asc) catalog_id q"
| "MineralDB_order_by d Col_name q = (if d then order_by_desc else order_by_asc) Mineral.name q"
| "MineralDB_order_by d Col_chemical_formula q =
     (if d then order_by_desc else order_by_asc) chemical_formula q"
| "MineralDB_order_by d Col_hardness q = (if d then order_by_desc else order_by_asc) hardness q"
| "MineralDB_order_by d Col_weight_carats q =
     (if d then order_by_desc else order_by_asc) weight_carats q"
| "MineralDB_order_by d Col_rarity q =
     (if d then order_by_desc else order_by_asc) (\<lambda>r. RarityType_value (Mineral.rarity r)) q"
| "MineralDB_order_by d Col_origin_country q =
     (if d then order_by_desc else order_by_asc) origin_country q"
| "MineralDB_order_by d Col_specimens_count q =
     (if d then order_by_desc else order_by_asc) specimens_count q"

text \<open>The search condition of \<open>get_minerals\<close> on one row: the eight \<open>ilike\<close> tests, joined
  by \<open>|\<close>. \<open>float_text\<close> is the store's cast of a float to text.\<close>

definition mineral_search_clause :: "(real \<Rightarrow> string) \<Rightarrow> string \<Rightarrow> Mineral \<Rightarrow> bool" where
  "mineral_search_clause float_text search_pattern r =
     (ilike search_pattern (catalog_id r) \<or>
      ilike search_pattern (Mineral.name r) \<or>
      ilike search_pattern (chemical_formula r) \<or>
      ilike search_pattern (origin_country r) \<or>
      ilike search_pattern (float_text (hardness r)) \<or>
      ilike search_pattern (float_text (weight_carats r)) \<or>
      ilike search_pattern (int_text (specimens_count r)) \<or>
      ilike search_pattern (RarityType_value (Mineral.rarity r)))"

text \<open>The query \<open>get_minerals\<close> builds before it cuts out a page: search, then the four
  filters, then the order.\<close>

definition minerals_query ::
  "(real \<Rightarrow> string) \<Rightarrow> string option \<Rightarrow> string option \<Rightarrow> RarityType option \<Rightarrow> string option \<Rightarrow>
   string option \<Rightarrow> string option \<Rightarrow> mineral_store \<Rightarrow> error + Mineral list" where
  "minerals_query float_text catalog_id' name' rarity' origin_country' search sort' db =
     (let query = db;
          query = (if truthy search
                   then filter (mineral_search_clause float_text (''%'' @ the search @ ''%'')) query
                   else query);
          query = (if truthy catalog_id'
                   then filter (\<lambda>r. catalog_id r = the catalog_id') query else query);
          query = (if truthy name'
                   then filter (\<lambda>r. Mineral.name r = the name') query else query);
          query = (case rarity' of
                     Some v \<Rightarrow> filter (\<lambda>r. Mineral.rarity r = v) query
                   | None \<Rightarrow> query);
          query = (if truthy origin_country'
                   then filter (\<lambda>r. origin_country r = the origin_country') query else query)
      in if truthy sort'
         then (if take 1 (the sort') = ''-''
               then (case MineralDB_getattr (drop 1 (the sort')) of
                       Inl e \<Rightarrow> Inl e
                     | Inr c \<Rightarrow> Inr (MineralDB_order_by True c query))
               else (case MineralDB_getattr (the sort') of
                       Inl e \<Rightarrow> Inl e
                     | Inr c \<Rightarrow> Inr (MineralDB_order_by False c query)))
         else Inr query)"

definition get_minerals ::
  "(real \<Rightarrow> string) \<Rightarrow> string option \<Rightarrow> string option \<Rightarrow> RarityType option \<Rightarrow> string option \<Rightarrow>
   string option \<Rightarrow> string option \<Rightarrow> int \<Rightarrow> int \<Rightarrow> mineral_store \<Rightarrow> error + Mineral listing" where
  "get_minerals float_text catalog_id' name' rarity' origin_country' search sort' page per_page db =
     (case minerals_query float_text catalog_id' name' rarity' origin_country' search sort' db of
        Inl e \<Rightarrow> Inl e
      | Inr query \<Rightarrow>
          (let offset = (page - 1) * per_page;
               results = offset_limit offset per_page query
           in Inr \<lparr>found = length results, page_no = page, data = results\<rparr>))"

text \<open>\<open>db.query(MineralDB).filter(MineralDB.catalog_id == cid).first()\<close>\<close>

definition mineral_first :: "string \<Rightarrow> mineral_store \<Rightarrow> Mineral option" where
  "mineral_first cid db = find (\<lambda>r. catalog_id r = cid) db"

text \<open>The handlers that write return the outcome and the store after the call; a handler
  that raises has committed nothing.\<close>

definition create_mineral :: "Mineral \<Rightarrow> mineral_store \<Rightarrow> (error + Mineral) \<times> mineral_store" where
  "create_mineral mineral db =
     (case mineral_first (catalog_id mineral) db of
        Some db_mineral \<Rightarrow> (Inl (HTTPException 400 AlreadyExists), db)
      | None \<Rightarrow> (Inr mineral, db @ [mineral]))"

definition update_mineral ::
  "string \<Rightarrow> Mineral \<Rightarrow> mineral_store \<Rightarrow> (error + Mineral) \<times> mineral_store" where
  "update_mineral cid mineral db =
     (if cid \<noteq> catalog_id mineral then (Inl (HTTPException 400 IdMismatch), db)
      else (case mineral_first cid db of
              None \<Rightarrow> (Inl (HTTPException 404 NotFound), db)
            | Some db_mineral \<Rightarrow>
                (Inr mineral, map (\<lambda>r. if catalog_id r = cid then mineral else r) db)))"

definition delete_mineral :: "string \<Rightarrow> mineral_store \<Rightarrow> (error + string) \<times> mineral_store" where
  "delete_mineral cid db =
     (case mineral_first cid db of
        None \<Rightarrow> (Inl (HTTPException 404 NotFound), db)
      | Some db_mineral \<Rightarrow> (Inr cid, filter (\<lambda>r. catalog_id r \<noteq> cid) db))"

section \<open>The game endpoints (Game.py)\<close>

text \<open>The table \<open>games\<close>, with primary key \<open>game_id\<close>. Every row is written by
  \<open>create_game\<close> or \<open>update_game\<close> from a \<open>Games\<close> object, so its \<open>rating\<close> is never
  null.\<close>

type_synonym game_store = "Games list"

datatype GamesDB_column =
    Col_game_id | Col_game_name | Col_genre | Col_platform | Col_release_date
  | Col_rating | Col_description

definition GamesDB_getattr :: "string \<Rightarrow> error + GamesDB_column" where
  "GamesDB_getattr a =
     (if a = ''game_id'' then Inr Col_game_id
      else if a = ''name'' then Inr Col_game_name
      else if a = ''genre'' then Inr Col_genre
      else if a = ''platform'' then Inr Col_platform
      else if a = ''release_date'' then Inr Col_release_date
      else if a = ''rating'' then Inr Col_rating
      else if a = ''description'' then Inr Col_description
      else Inl AttributeError)"

fun GamesDB_order_by :: "bool \<Rightarrow> GamesDB_column \<Rightarrow> Games list \<Rightarrow> Games list" where
  "GamesDB_order_by d Col_game_id q = (if d then order_by_desc else order_by_asc) game_id q"
| "GamesDB_order_by d Col_game_name q = (if d then order_by_desc else order_by_asc) Games.name q"
| "GamesDB_order_by d Col_genre q = (if d then order_by_desc else order_by_asc) genre q"
| "GamesDB_order_by d Col_platform q = (if d then order_by_desc else order_by_asc) platform q"
| "GamesDB_order_by d Col_release_date q =
     (if d then order_by_desc else order_by_asc) release_date q"
| "GamesDB_order_by d Col_rating q =
     (if d then order_by_desc else order_by_asc) (\<lambda>r. RatingType_name (Games.rating r)) q"
| "GamesDB_order_by d Col_description q =
     (if d then order_by_desc else order_by_asc) description q"

text \<open>The search condition of \<open>get_games\<close> on one row: six \<open>ilike\<close> tests, joined by
  \<open>|\<close>; \<open>release_date\<close> is not among them.\<close>

definition game_search_clause :: "string \<Rightarrow> Games \<Rightarrow> bool" where
  "game_search_clause search_pattern r =
     (ilike search_pattern (game_id r) \<or>
      ilike search_pattern (Games.name r) \<or>
      ilike search_pattern (genre r) \<or>
      ilike search_pattern (platform r) \<or>
      ilike search_pattern (description r) \<or>
      ilike search_pattern (RatingType_name (Games.rating r)))"

definition games_query ::
  "string option \<Rightarrow> string option \<Rightarrow> string option \<Rightarrow> string option \<Rightarrow> RatingType option \<Rightarrow>
   string option \<Rightarrow> string option \<Rightarrow> game_store \<Rightarrow> error + Games list" where
  "games_query game_id' name' genre' platform' rating' search sort' db =
     (let query = db;
          query = (if truthy search
                   then filter (game_search_clause (''%'' @ the search @ ''%'')) query
                   else query);
          query = (if truthy game_id'
                   then filter (\<lambda>r. game_id r = the game_id') query else query);
          query = (if truthy name'
                   then filter (\<lambda>r. Games.name r = the name') query else query);
          query = (if truthy genre'
                   then filter (\<lambda>r. genre r = the genre') query else query);
          query = (if truthy platform'
                   then filter (\<lambda>r. platform r = the platform') query else query);
          query = (case rating' of
                     Some v \<Rightarrow> filter (\<lambda>r. Games.rating r = v) query
                   | None \<Rightarrow> query)
      in if truthy sort'
         then (if take 1 (the sort') = ''-''
               then (case GamesDB_getattr (drop 1 (the sort')) of
                       Inl e \<Rightarrow> Inl e
                     | Inr c \<Rightarrow> Inr (GamesDB_order_by True c query))
               else (case GamesDB_getattr (the sort') of
                       Inl e \<Rightarrow> Inl e
                     | Inr c \<Rightarrow> Inr (GamesDB_order_by False c query)))
         else Inr query)"

definition get_games ::
  "string option \<Rightarrow> string option \<Rightarrow> string option \<Rightarrow> string option \<Rightarrow> RatingType option \<Rightarrow>
   string option \<Rightarrow> string option \<Rightarrow> int \<Rightarrow> int \<Rightarrow> game_store \<Rightarrow> error + Games listing" where
  "get_games game_id' name' genre' platform' rating' search sort' page per_page db =
     (case games_query game_id' name' genre' platform' rating' search sort' db of
        Inl e \<Rightarrow> Inl e
      | Inr query \<Rightarrow>
          (let offset = (page - 1) * per_page;
               results = offset_limit offset per_page query
           in Inr \<lparr>found = length results, page_no = page, data = results\<rparr>))"

definition game_first :: "string \<Rightarrow> game_store \<Rightarrow> Games option" where
  "game_first gid db = find (\<lambda>r. game_id r = gid) db"

definition create_game :: "Games \<Rightarrow> game_store \<Rightarrow> (error + Games) \<times> game_store" where
  "create_game game db =
     (case game_first (game_id game) db of
        Some db_game \<Rightarrow> (Inl (HTTPException 400 AlreadyExists), db)
      | None \<Rightarrow> (Inr game, db @ [game]))"

definition update_game :: "string \<Rightarrow> Games \<Rightarrow> game_store \<Rightarrow> (error + Games) \<times> game_store" where
  "update_game gid game db =
     (if gid \<noteq> game_id game then (Inl (HTTPException 400 IdMismatch), db)
      else (case game_first gid db of
              None \<Rightarrow> (Inl (HTTPException 404 NotFound), db)
            | Some db_game \<Rightarrow>
                (Inr game, map (\<lambda>r. if game_id r = gid then game else r) db)))"

definition delete_game :: "string \<Rightarrow> game_store \<Rightarrow> (error + string) \<times> game_store" where
  "delete_game gid db =
     (case game_first gid db of
        None \<Rightarrow> (Inl (HTTPException 404 NotFound), db)
      | Some db_game \<Rightarrow> (Inr gid, filter (\<lambda>r. game_id r \<noteq> gid) db))"

text \<open>
  What \<open>export_games\<close> hands to the encoder of each format: the rows of the CSV file (the
  header first), the objects of the JSON answer (field name and value), the rows of the
  data frame written to the spreadsheet (where the release date stays a timestamp).
\<close>

datatype cell = Text string | Timestamp datetime

datatype export = CSV "string list list" | JSON "(string \<times> string) list list"
  | XLSX "(string \<times> cell) list list"

text \<open>\<open>export_games\<close>; \<open>isoformat\<close> is \<open>datetime.isoformat\<close>. The handler reads the whole
  table first and writes nothing to the store.\<close>

definition export_games :: "(datetime \<Rightarrow> string) \<Rightarrow> string \<Rightarrow> game_store \<Rightarrow> error + export" where
  "export_games isoformat format db =
     (let games = db in
      if format = ''csv'' then
        Inr (CSV ([''game_id'', ''name'', ''genre'', ''platform'', ''release_date'', ''rating'',
                   ''description''] #
                  map (\<lambda>game. [game_id game, Games.name game, genre game, platform game,
                                isoformat (release_date game),
                                RatingType_value (Games.rating game), description game])
                      games))
      else if format = ''json'' then
        Inr (JSON (map (\<lambda>game. [(''game_id'', game_id game), (''name'', Games.name game),
                                  (''genre'', genre game), (''platform'', platform game),
                                  (''release_date'', isoformat (release_date game)),
                                  (''rating'', RatingType_value (Games.rating game)),
                                  (''description'', description game)])
                       games))
      else if format = ''xlsx'' then
        Inr (XLSX (map (\<lambda>game. [(''game_id'', Text (game_id game)),
                                  (''name'', Text (Games.name game)),
                                  (''genre'', Text (genre game)),
                                  (''platform'', Text (platform game)),
                                  (''release_date'', Timestamp (release_date game)),
                                  (''rating'', Text (RatingType_value (Games.rating game))),
                                  (''description'', Text (description game))])
                       games))
      else Inl (HTTPException 400 UnsupportedFormat))"

section \<open>The applications: routes, request bodies, the store\<close>

text \<open>
  A request to the minerals application. The framework builds the \<open>Mineral\<close> of a body
  before it calls the handler, and answers with the validation error if that fails. Every
  request returns its outcome and the store after it; only the handlers that write are
  given a way to change it.
\<close>

datatype mineral_request =
    GET_minerals "string option" "string option" "RarityType option" "string option"
      "string option" "string option" int int
  | POST_minerals Mineral
  | PUT_minerals string Mineral
  | DELETE_minerals string

datatype mineral_response =
    Minerals "Mineral listing" | Stored_mineral Mineral | Deleted_mineral string

definition lift_outcome :: "('a \<Rightarrow> 'b) \<Rightarrow> (error + 'a) \<times> 's \<Rightarrow> (error + 'b) \<times> 's" where
  "lift_outcome f out = (map_sum id f (fst out), snd out)"

fun minerals_app ::
  "(real \<Rightarrow> string) \<Rightarrow> mineral_request \<Rightarrow> mineral_store \<Rightarrow> (error + mineral_response) \<times> mineral_store"
where
  "minerals_app float_text (GET_minerals cid nm rar oc search sort' page per_page) db =
     (map_sum id Minerals (get_minerals float_text cid nm rar oc search sort' page per_page db), db)"
| "minerals_app float_text (POST_minerals body) db =
     (case validate_Mineral body of
        Inl errs \<Rightarrow> (Inl (RequestValidationError errs), db)
      | Inr mineral \<Rightarrow> lift_outcome Stored_mineral (create_mineral mineral db))"
| "minerals_app float_text (PUT_minerals cid body) db =
     (case validate_Mineral body of
        Inl errs \<Rightarrow> (Inl (RequestValidationError errs), db)
      | Inr mineral \<Rightarrow> lift_outcome Stored_mineral (update_mineral cid mineral db))"
| "minerals_app float_text (DELETE_minerals cid) db =
     lift_outcome Deleted_mineral (delete_mineral cid db)"

text \<open>A request to the games application; \<open>now\<close> is the clock when the body is validated.\<close>

datatype game_request =
    GET_games "string option" "string option" "string option" "string option"
      "RatingType option" "string option" "string option" int int
  | POST_games Games
  | PUT_games string Games
  | DELETE_games string
  | GET_games_export string

datatype game_response =
    Game_list "Games listing" | Stored_game Games | Deleted_game string | Exported export

fun games_app ::
  "datetime \<Rightarrow> (datetime \<Rightarrow> string) \<Rightarrow> game_request \<Rightarrow> game_store \<Rightarrow>
   (error + game_response) \<times> game_store"
where
  "games_app now isoformat (GET_games gid nm gen plat rat search sort' page per_page) db =
     (map_sum id Game_list (get_games gid nm gen plat rat search sort' page per_page db), db)"
| "games_app now isoformat (POST_games body) db =
     (case validate_Games now body of
        Inl errs \<Rightarrow> (Inl (RequestValidationError errs), db)
      | Inr game \<Rightarrow> lift_outcome Stored_game (create_game game db))"
| "games_app now isoformat (PUT_games gid body) db =
     (case validate_Games now body of
        Inl errs \<Rightarrow> (Inl (RequestValidationError errs), db)
      | Inr game \<Rightarrow> lift_outcome Stored_game (update_game gid game db))"
| "games_app now isoformat (DELETE_games gid) db =
     lift_outcome Deleted_game (delete_game gid db)"
| "games_app now isoformat (GET_games_export format) db =
     (map_sum id Exported (export_games isoformat format db), db)"

text \<open>Which requests only read.\<close>

fun mineral_read :: "mineral_request \<Rightarrow> bool" where
  "mineral_read (GET_minerals cid nm rar oc search sort' page per_page) = True"
| "mineral_read _ = False"

fun game_read :: "game_request \<Rightarrow> bool" where
  "game_read (GET_games gid nm gen plat rat search sort' page per_page) = True"
| "game_read (GET_games_export format) = True"
| "game_read _ = False"

text \<open>The store after a sequence of requests, served one after the other.\<close>

fun minerals_serve :: "(real \<Rightarrow> string) \<Rightarrow> mineral_request list \<Rightarrow> mineral_store \<Rightarrow> mineral_store"
where
  "minerals_serve float_text [] db = db"
| "minerals_serve float_text (rq # rqs) db =
     minerals_serve float_text rqs (snd (minerals_app float_text rq db))"

fun games_serve ::
  "datetime \<Rightarrow> (datetime \<Rightarrow> string) \<Rightarrow> game_request list \<Rightarrow> game_store \<Rightarrow> game_store" where
  "games_serve now isoformat [] db = db"
| "games_serve now isoformat (rq # rqs) db =
     games_serve now isoformat rqs (snd (games_app now isoformat rq db))"

section \<open>The specification's notions, and sample records\<close>

text \<open>The normalized record of the specification: every string field trimmed of
  surrounding whitespace, the other fields unchanged.\<close>

definition spec_normalize_Mineral :: "Mineral \<Rightarrow> Mineral" where
  "spec_normalize_Mineral m =
     m\<lparr>catalog_id := strip (catalog_id m), Mineral.name := strip (Mineral.name m),
       chemical_formula := strip (chemical_formula m),
       origin_country := strip (origin_country m)\<rparr>"

definition spec_normalize_Games :: "Games \<Rightarrow> Games" where
  "spec_normalize_Games g =
     g\<lparr>game_id := strip (game_id g), Games.name := strip (Games.name g),
       genre := strip (genre g), platform := strip (platform g),
       description := strip (description g)\<rparr>"

text \<open>The fields of each schema by name, in the order of declaration, and whether the
  validator of a field raises on a candidate (a field without validator never does).\<close>

definition Mineral_fields :: "string list" where
  "Mineral_fields = [''catalog_id'', ''name'', ''chemical_formula'', ''hardness'',
     ''weight_carats'', ''rarity'', ''origin_country'', ''specimens_count'']"

definition Mineral_field_raises :: "Mineral \<Rightarrow> string \<Rightarrow> bool" where
  "Mineral_field_raises m f =
     (if f = ''catalog_id'' then isl (validator_catalog_id (catalog_id m))
      else if f = ''name'' then isl (Mineral_validator_name (Mineral.name m))
      else if f = ''chemical_formula'' then isl (validator_formula (chemical_formula m))
      else if f = ''hardness'' then isl (validator_hardness (hardness m))
      else if f = ''weight_carats'' then isl (validator_weight (weight_carats m))
      else if f = ''origin_country'' then isl (validator_country (origin_country m))
      else if f = ''specimens_count'' then isl (validator_count (specimens_count m))
      else False)"

definition Games_fields :: "string list" where
  "Games_fields = [''game_id'', ''name'', ''genre'', ''platform'', ''release_date'',
     ''rating'', ''description'']"

definition Games_field_raises :: "datetime \<Rightarrow> Games \<Rightarrow> string \<Rightarrow> bool" where
  "Games_field_raises now g f =
     (if f = ''game_id'' then isl (validator_game_id (game_id g))
      else if f = ''name'' then isl (Games_validator_name (Games.name g))
      else if f = ''genre'' then isl (validator_genre (genre g))
      else if f = ''platform'' then isl (validator_platform (platform g))
      else if f = ''release_date'' then isl (validator_release_date now (release_date g))
      else if f = ''description'' then isl (validator_description (description g))
      else False)"



text \<open>A search string without the two wildcards of \<open>LIKE\<close>.\<close>

definition wildcard_free :: "string \<Rightarrow> bool" where
  "wildcard_free s = list_all (\<lambda>c. c \<noteq> CHR ''%'' \<and> c \<noteq> CHR ''_'') s"

text \<open>The specification's test: the text contains the search string as a substring, the
  case of letters aside (of the ASCII letters, as in the store).\<close>

definition ci_substring :: "string \<Rightarrow> string \<Rightarrow> bool" where
  "ci_substring s t = sublist (map sql_lower s) (map sql_lower t)"



text \<open>The same without the release date.\<close>

definition Games_texts_undated :: "Games \<Rightarrow> string list" where
  "Games_texts_undated r =
     [game_id r, Games.name r, genre r, platform r, RatingType_name (Games.rating r),
      description r]"

text \<open>Sample records: the mineral of the specification's scenarios, the same with blanks
  around its name, a second mineral, and two games.\<close>

definition quartz :: Mineral where
  "quartz = \<lparr>catalog_id = ''AB-1234'', Mineral.name = ''Quartz'', chemical_formula = ''SiO2'',
     hardness = 7.0, weight_carats = 2.5, Mineral.rarity = COMMON, origin_country = ''Brazil'',
     specimens_count = 5\<rparr>"

definition quartz_padded :: Mineral where
  "quartz_padded = quartz\<lparr>Mineral.name := ''  Quartz ''\<rparr>"

definition opal :: Mineral where
  "opal = \<lparr>catalog_id = ''CD-0002'', Mineral.name = ''Opal'', chemical_formula = ''SiO2nH2O'',
     hardness = 6.0, weight_carats = 1.5, Mineral.rarity = RARE, origin_country = ''Australia'',
     specimens_count = 2\<rparr>"

definition tetris :: Games where
  "tetris = \<lparr>game_id = ''AB-0001'', Games.name = ''Tetris'', genre = ''Puzzle'',
     platform = ''Game Boy'', release_date = 0, Games.rating = PEGI_3,
     description = ''Falling blocks are packed into rows.''\<rparr>"


text \<open>Casts of floats and of timestamps to text, and \<open>isoformat\<close>, given on the values of
  the sample records.\<close>

definition sample_float_text :: "real \<Rightarrow> string" where
  "sample_float_text x =
     (if x = 7 then ''7.0'' else if x = 6 then ''6.0'' else if x = 5 / 2 then ''2.5''
      else if x = 3 / 2 then ''1.5'' else ''0.0'')"

definition sample_date_text :: "datetime \<Rightarrow> string" where
  "sample_date_text t =
     (if t = 0 then ''1970-01-01 00:00:00.000000'' else ''1969-12-31 23:59:59.999995'')"

definition sample_isoformat :: "datetime \<Rightarrow> string" where
  "sample_isoformat t =
     (if t = 0 then ''1970-01-01T00:00:00'' else ''1969-12-31T23:59:59.999995'')"

section \<open>Lemmas\<close>

lemmas validator_defs =
  validator_catalog_id_def Mineral_validator_name_def validator_formula_def
  validator_hardness_def validator_weight_def validator_country_def validator_count_def
  validator_game_id_def Games_validator_name_def validator_genre_def validator_platform_def
  validator_release_date_def validator_description_def

lemmas char_class_defs = strip_def isspace_def ord_def re_upper_def re_digit_def re_letter_def

lemmas sql_lower_eval = sql_lower_def re_upper_def ord_def char_of_def bit_0

lemma validate_Mineral_failing:
  "validate_Mineral m =
     (case filter (Mineral_field_raises m) Mineral_fields of [] \<Rightarrow> Inr m | errs \<Rightarrow> Inl errs)"
  unfolding validate_Mineral_def Mineral_fields_def Mineral_field_raises_def field_error_def
    validator_defs Let_def
  by (simp split: sum.splits)

lemma validate_Games_failing:
  "validate_Games now g =
     (case filter (Games_field_raises now g) Games_fields of [] \<Rightarrow> Inr g | errs \<Rightarrow> Inl errs)"
  unfolding validate_Games_def Games_fields_def Games_field_raises_def field_error_def
    validator_defs Let_def
  by (simp split: sum.splits)

lemma validate_quartz: "validate_Mineral quartz = Inr quartz"
  by (simp add: quartz_def validate_Mineral_def field_error_def validator_defs char_class_defs)

lemma validate_quartz_padded: "validate_Mineral quartz_padded = Inr quartz_padded"
  by (simp add: quartz_padded_def quartz_def validate_Mineral_def field_error_def validator_defs char_class_defs)

lemma validate_tetris: "validate_Games 0 tetris = Inr tetris"
  by (simp add: tetris_def validate_Games_def field_error_def validator_defs char_class_defs)





lemma minerals_serve_reads:
  "list_all mineral_read rqs \<Longrightarrow> minerals_serve ft rqs db = db"
proof (induction rqs)
  case Nil
  show ?case by simp
next
  case (Cons rq rqs)
  then show ?case by (cases rq) simp_all
qed

lemma games_serve_reads:
  "list_all game_read rqs \<Longrightarrow> games_serve now isofmt rqs db = db"
proof (induction rqs)
  case Nil
  show ?case by simp
next
  case (Cons rq rqs)
  then show ?case by (cases rq) simp_all
qed

lemma mineral_first_None_iff: "mineral_first cid db = None \<longleftrightarrow> cid \<notin> set (map catalog_id db)"
  by (auto simp: mineral_first_def find_None_iff)

lemma game_first_None_iff: "game_first gid db = None \<longleftrightarrow> gid \<notin> set (map game_id db)"
  by (auto simp: game_first_def find_None_iff)

lemma create_mineral_twice:
  assumes "fst (create_mineral m db) = Inr x" and "catalog_id m2 = catalog_id m"
  shows "create_mineral m2 (snd (create_mineral m db)) =
           (Inl (HTTPException 400 AlreadyExists), snd (create_mineral m db))"
proof -
  from assms(1) have new: "mineral_first (catalog_id m) db = None"
    by (simp add: create_mineral_def split: option.splits)
  then have db': "snd (create_mineral m db) = db @ [m]"
    by (simp add: create_mineral_def)
  have "mineral_first (catalog_id m2) (db @ [m]) \<noteq> None"
    using assms(2) by (simp add: mineral_first_None_iff)
  then show ?thesis
    unfolding db' by (auto simp: create_mineral_def)
qed

lemma create_game_twice:
  assumes "fst (create_game m db) = Inr x" and "game_id m2 = game_id m"
  shows "create_game m2 (snd (create_game m db)) =
           (Inl (HTTPException 400 AlreadyExists), snd (create_game m db))"
proof -
  from assms(1) have new: "game_first (game_id m) db = None"
    by (simp add: create_game_def split: option.splits)
  then have db': "snd (create_game m db) = db @ [m]"
    by (simp add: create_game_def)
  have "game_first (game_id m2) (db @ [m]) \<noteq> None"
    using assms(2) by (simp add: game_first_None_iff)
  then show ?thesis
    unfolding db' by (auto simp: create_game_def)
qed









lemma validate_Mineral_Inr:
  assumes "validate_Mineral m = Inr m'"
  shows "m' = m" and "re_match_id (catalog_id m)"
proof -
  from assms have e: "filter (Mineral_field_raises m) Mineral_fields = []"
    by (simp add: validate_Mineral_failing split: list.splits)
  with assms show "m' = m"
    by (simp add: validate_Mineral_failing)
  from e have "\<forall>f\<in>set Mineral_fields. \<not> Mineral_field_raises m f"
    by (simp only: filter_empty_conv)
  then have "\<not> Mineral_field_raises m ''catalog_id''"
    by (simp add: Mineral_fields_def)
  then show "re_match_id (catalog_id m)"
    by (simp add: Mineral_field_raises_def validator_catalog_id_def split: if_splits)
qed

lemma re_match_id_nonempty: "re_match_id s \<Longrightarrow> s \<noteq> []"
  by auto

lemma filter_new_key:
  "k \<notin> set (map f xs) \<Longrightarrow> f m = k \<Longrightarrow> filter (\<lambda>r. f r = k) (xs @ [m]) = [m]"
  by (induction xs) auto







lemma create_then_read:
  assumes "create_mineral m db = (Inr x, db')" and "catalog_id m \<noteq> []"
  shows "get_minerals ft (Some (catalog_id m)) None None None None None 1 10 db'
           = Inr \<lparr>found = 1, page_no = 1, data = [m]\<rparr>"
proof -
  from assms(1) have new: "mineral_first (catalog_id m) db = None" and db': "db' = db @ [m]"
    by (auto simp: create_mineral_def split: option.splits)
  from new have "filter (\<lambda>r. catalog_id r = catalog_id m) (db @ [m]) = [m]"
    by (intro filter_new_key) (simp_all add: mineral_first_None_iff)
  with assms(2) show ?thesis
    unfolding db' by (simp add: get_minerals_def minerals_query_def truthy_def offset_limit_def)
qed

lemma ilike_Nil: "ilike [] t \<longleftrightarrow> t = []"
  by (cases t) simp_all

lemma ilike_percent:
  "ilike (CHR ''%'' # ps) t \<longleftrightarrow> (\<exists>a b. t = a @ b \<and> ilike ps b)"
proof (induction t)
  case Nil
  show ?case by simp
next
  case (Cons c cs)
  have "(\<exists>a b. c # cs = a @ b \<and> ilike ps b) \<longleftrightarrow>
        ilike ps (c # cs) \<or> (\<exists>a b. cs = a @ b \<and> ilike ps b)"
    by (auto simp: Cons_eq_append_conv)
  with Cons show ?case by simp
qed

lemma ilike_literal:
  "wildcard_free s \<Longrightarrow>
   ilike (s @ ps) t \<longleftrightarrow> (\<exists>a b. t = a @ b \<and> map sql_lower a = map sql_lower s \<and> ilike ps b)"
proof (induction s arbitrary: t)
  case Nil
  show ?case by simp
next
  case (Cons x xs)
  then have x: "x \<noteq> CHR ''%''" "x \<noteq> CHR ''_''" and xs: "wildcard_free xs"
    by (simp_all add: wildcard_free_def)
  show ?case
  proof (cases t)
    case Nil
    with x show ?thesis by simp
  next
    case (Cons c cs)
    have "(\<exists>a b. c # cs = a @ b \<and> map sql_lower a = map sql_lower (x # xs) \<and> ilike ps b) \<longleftrightarrow>
          sql_lower x = sql_lower c \<and>
          (\<exists>a b. cs = a @ b \<and> map sql_lower a = map sql_lower xs \<and> ilike ps b)"
    proof
      assume "\<exists>a b. c # cs = a @ b \<and> map sql_lower a = map sql_lower (x # xs) \<and> ilike ps b"
      then obtain a b where ab: "c # cs = a @ b" "map sql_lower a = map sql_lower (x # xs)"
        "ilike ps b"
        by blast
      from ab(2) obtain a0 a' where a: "a = a0 # a'"
        by (cases a) auto
      with ab have "sql_lower x = sql_lower c" "cs = a' @ b" "map sql_lower a' = map sql_lower xs"
        by auto
      with ab(3) show "sql_lower x = sql_lower c \<and>
          (\<exists>a b. cs = a @ b \<and> map sql_lower a = map sql_lower xs \<and> ilike ps b)"
        by blast
    next
      assume "sql_lower x = sql_lower c \<and>
          (\<exists>a b. cs = a @ b \<and> map sql_lower a = map sql_lower xs \<and> ilike ps b)"
      then obtain a' b where ab: "sql_lower x = sql_lower c" "cs = a' @ b"
        "map sql_lower a' = map sql_lower xs" "ilike ps b"
        by blast
      then have "c # cs = (c # a') @ b \<and> map sql_lower (c # a') = map sql_lower (x # xs)"
        by simp
      with ab(4) show
        "\<exists>a b. c # cs = a @ b \<and> map sql_lower a = map sql_lower (x # xs) \<and> ilike ps b"
        by blast
    qed
    with Cons x Cons.IH [OF xs, of cs] show ?thesis by simp
  qed
qed

lemma ilike_any: "ilike ''%'' t"
  by (induction t) simp_all

lemma ilike_contains:
  assumes "wildcard_free s"
  shows "ilike (''%'' @ s @ ''%'') t \<longleftrightarrow> ci_substring s t"
proof -
  have "ilike (''%'' @ s @ ''%'') t \<longleftrightarrow> (\<exists>a b. t = a @ b \<and> ilike (s @ ''%'') b)"
    using ilike_percent [of "s @ ''%''" t] by simp
  also have "\<dots> \<longleftrightarrow> (\<exists>a b c. t = a @ b @ c \<and> map sql_lower b = map sql_lower s)"
    using ilike_literal [OF assms, of "''%''"] ilike_any by auto
  also have "\<dots> \<longleftrightarrow> (\<exists>p q. map sql_lower t = p @ map sql_lower s @ q)"
  proof
    assume "\<exists>a b c. t = a @ b @ c \<and> map sql_lower b = map sql_lower s"
    then obtain a b c where "t = a @ b @ c" "map sql_lower b = map sql_lower s"
      by blast
    then have "map sql_lower t = map sql_lower a @ map sql_lower s @ map sql_lower c"
      by simp
    then show "\<exists>p q. map sql_lower t = p @ map sql_lower s @ q"
      by blast
  next
    assume "\<exists>p q. map sql_lower t = p @ map sql_lower s @ q"
    then obtain p q where pq: "map sql_lower t = p @ map sql_lower s @ q"
      by blast
    then obtain a r where ar: "t = a @ r" "map sql_lower r = map sql_lower s @ q"
      by (metis map_eq_append_conv)
    from ar(2) obtain b c where "r = b @ c" "map sql_lower b = map sql_lower s"
      by (metis map_eq_append_conv)
    with ar(1) show "\<exists>a b c. t = a @ b @ c \<and> map sql_lower b = map sql_lower s"
      by blast
  qed
  finally show ?thesis
    by (simp add: ci_substring_def sublist_def)
qed


lemma dec_digits_digit: "n < 10 \<Longrightarrow> dec_digits n = [char_of (48 + n)]"
  by (simp add: dec_digits.simps)

lemmas text_eval = sublist_code prefix_code int_text_def dec_digits_digit sql_lower_eval


lemma game_search_clause_texts:
  "game_search_clause pat = (\<lambda>r. list_ex (ilike pat) (Games_texts_undated r))"
  by (rule ext) (auto simp: game_search_clause_def Games_texts_undated_def)


lemma games_query_search:
  "s \<noteq> [] \<Longrightarrow>
   games_query None None None None None (Some s) None db
     = Inr (filter (\<lambda>r. list_ex (ilike (''%'' @ s @ ''%'')) (Games_texts_undated r)) db)"
  by (simp add: games_query_def truthy_def game_search_clause_texts)

lemma list_ex_ilike_contains:
  "wildcard_free s \<Longrightarrow> list_ex (ilike (CHR ''%'' # s @ ''%'')) = list_ex (ci_substring s)"
  using ilike_contains [of s] by (intro ext) (simp add: list_ex_iff)


lemma games_query_search_contains:
  "s \<noteq> [] \<Longrightarrow> wildcard_free s \<Longrightarrow>
   games_query None None None None None (Some s) None db
     = Inr (filter (\<lambda>r. list_ex (ci_substring s) (Games_texts_undated r)) db)"
  by (simp add: games_query_search list_ex_ilike_contains)


lemma distinct_map_sort_key:
  "distinct (map g (sort_key f xs)) \<longleftrightarrow> distinct (map g xs)"
  by (simp add: distinct_map)






section \<open>The claims\<close>

text \<open>
  C1 (amended). Validation of a candidate record either returns the record exactly as it
  was given -- no string field is trimmed, \<open>strip\<close> only serves to measure lengths, and
  the numeric fields are unchanged -- or fails with the list of the fields whose validator
  raised, in the order of declaration, so that the first failing field comes first.
\<close>

theorem C1_validation_returns_candidate_unchanged:
  "validate_Mineral m =
     (case filter (Mineral_field_raises m) Mineral_fields of [] \<Rightarrow> Inr m | errs \<Rightarrow> Inl errs) \<and>
   validate_Games now g =
     (case filter (Games_field_raises now g) Games_fields of [] \<Rightarrow> Inr g | errs \<Rightarrow> Inl errs)"
  using validate_Mineral_failing validate_Games_failing by simp

theorem C1_witness:
  "validate_Mineral quartz_padded = Inr quartz_padded \<and>
   validate_Mineral (quartz\<lparr>hardness := 11, specimens_count := -1\<rparr>)
     = Inl [''hardness'', ''specimens_count''] \<and>
   validate_Games 0 tetris = Inr tetris \<and>
   validate_Games 0 (tetris\<lparr>release_date := 1, description := ''short''\<rparr>) = Inl [''release_date'', ''description'']"
  using C1_validation_returns_candidate_unchanged [of quartz_padded 0 tetris]
    C1_validation_returns_candidate_unchanged
      [of "quartz\<lparr>hardness := 11, specimens_count := -1\<rparr>" 0
          "tetris\<lparr>release_date := 1, description := ''short''\<rparr>"]
  by (simp add: quartz_padded_def quartz_def tetris_def Mineral_fields_def Games_fields_def
      Mineral_field_raises_def Games_field_raises_def validator_defs char_class_defs)

text \<open>C1 as stated fails: a mineral whose name carries surrounding blanks is accepted and
  returned with the blanks, not with the trimmed name.\<close>

theorem C1_counterexample:
  "\<not> (validate_Mineral quartz_padded = Inr (spec_normalize_Mineral quartz_padded) \<or>
      isl (validate_Mineral quartz_padded))"
  by (simp add: validate_quartz_padded) (simp add: quartz_padded_def quartz_def spec_normalize_Mineral_def char_class_defs)







text \<open>The search of the games does not look at the release date: a game whose date text
  holds the search string, and no other field, is not found.\<close>

lemma games_search_skips_release_date:
  "ci_substring ''1970'' (sample_date_text (release_date tetris)) \<and>
   games_query None None None None None (Some ''1970'') None [tetris] = Inr []"
proof -
  have a: "ci_substring ''1970'' (sample_date_text (release_date tetris))"
    by (simp add: ci_substring_def tetris_def sample_date_text_def text_eval)
  have "wildcard_free ''1970''"
    by (simp add: wildcard_free_def)
  moreover have "\<not> list_ex (ci_substring ''1970'') (Games_texts_undated tetris)"
    by (simp add: ci_substring_def Games_texts_undated_def tetris_def text_eval)
  ultimately have "games_query None None None None None (Some ''1970'') None [tetris] = Inr []"
    using games_query_search_contains [of "''1970''" "[tetris]"] by simp
  with a show ?thesis by simp
qed



text \<open>
  C5. After a create of a record with identifier X has succeeded, and after any sequence
  of requests that only read, every further create of a record with identifier X fails
  with the conflict error (status 400, a record with this identifier already exists) and
  leaves the store as it was; for minerals and for games.
\<close>

theorem C5_second_create_conflicts:
  "(fst (create_mineral m db) = Inr x \<and> list_all mineral_read rqs \<and>
    catalog_id m2 = catalog_id m \<and>
    db2 = minerals_serve ft rqs (snd (create_mineral m db))
    \<longrightarrow> create_mineral m2 db2 = (Inl (HTTPException 400 AlreadyExists), db2)) \<and>
   (fst (create_game g gdb) = Inr y \<and> list_all game_read grqs \<and>
    game_id g2 = game_id g \<and>
    gdb2 = games_serve now isofmt grqs (snd (create_game g gdb))
    \<longrightarrow> create_game g2 gdb2 = (Inl (HTTPException 400 AlreadyExists), gdb2))"
  by (simp add: minerals_serve_reads games_serve_reads create_mineral_twice create_game_twice)

theorem C5_witness:
  "fst (create_mineral quartz []) = Inr quartz \<and>
   list_all mineral_read [GET_minerals None None None None (Some ''Brazil'') None 1 10] \<and>
   create_mineral quartz_padded
     (minerals_serve sample_float_text [GET_minerals None None None None (Some ''Brazil'') None 1 10]
        (snd (create_mineral quartz [])))
     = (Inl (HTTPException 400 AlreadyExists), [quartz]) \<and>
   fst (create_game tetris []) = Inr tetris \<and>
   list_all game_read [GET_games_export ''csv''] \<and>
   create_game tetris
     (games_serve 0 sample_isoformat [GET_games_export ''csv''] (snd (create_game tetris [])))
     = (Inl (HTTPException 400 AlreadyExists), [tetris])"
  using C5_second_create_conflicts
    [of quartz "[]" quartz "[GET_minerals None None None None (Some ''Brazil'') None 1 10]"
        quartz_padded "[quartz]" sample_float_text
        tetris "[]" tetris "[GET_games_export ''csv'']" tetris "[tetris]" 0 sample_isoformat]
  by (simp add: create_mineral_def create_game_def mineral_first_def game_first_def
      quartz_padded_def)





text \<open>
  C8. An export with a format other than \<open>csv\<close>, \<open>json\<close> and \<open>xlsx\<close> fails with the format
  error (status 400, the export format is not supported); the handler returns no export,
  and the store after the request is the store before it.
\<close>

theorem C8_unsupported_export_format:
  "format \<noteq> ''csv'' \<and> format \<noteq> ''json'' \<and> format \<noteq> ''xlsx'' \<longrightarrow>
     export_games isofmt format db = Inl (HTTPException 400 UnsupportedFormat) \<and>
     games_app now isofmt (GET_games_export format) db
       = (Inl (HTTPException 400 UnsupportedFormat), db)"
  by (simp add: export_games_def)

theorem C8_witness:
  "''pdf'' \<noteq> ''csv'' \<and> ''pdf'' \<noteq> ''json'' \<and> ''pdf'' \<noteq> ''xlsx'' \<and>
   export_games sample_isoformat ''pdf'' [tetris] = Inl (HTTPException 400 UnsupportedFormat) \<and>
   games_app 0 sample_isoformat (GET_games_export ''pdf'') [tetris]
     = (Inl (HTTPException 400 UnsupportedFormat), [tetris])"
  using C8_unsupported_export_format [of "''pdf''" sample_isoformat "[tetris]" 0]
  by simp

text \<open>
  C9 (amended). For every candidate mineral r that passes validation, after a successful
  create of r the read by r's identifier (the list query with the filter \<open>catalog_id\<close>,
  first page) returns exactly one record, and it is r itself, as it was submitted: nothing
  is trimmed.
\<close>

theorem C9_create_then_read_returns_record:
  "minerals_app ft (POST_minerals r) db = (Inr x, db') \<longrightarrow>
     x = Stored_mineral r \<and>
     get_minerals ft (Some (catalog_id r)) None None None None None 1 10 db'
       = Inr \<lparr>found = 1, page_no = 1, data = [r]\<rparr>"
proof
  assume a: "minerals_app ft (POST_minerals r) db = (Inr x, db')"
  then obtain m where v: "validate_Mineral r = Inr m"
    by (cases "validate_Mineral r") auto
  then have m: "m = r" and nonempty: "catalog_id r \<noteq> []"
    using validate_Mineral_Inr [of r m] re_match_id_nonempty by auto
  from a v m have l: "lift_outcome Stored_mineral (create_mineral r db) = (Inr x, db')"
    by simp
  then obtain y where c: "create_mineral r db = (Inr y, db')"
    by (cases "create_mineral r db"; cases "fst (create_mineral r db)")
       (auto simp: lift_outcome_def)
  then have "y = r"
    by (auto simp: create_mineral_def split: option.splits)
  with l c have "x = Stored_mineral r"
    by (simp add: lift_outcome_def)
  with create_then_read [OF c nonempty] show
    "x = Stored_mineral r \<and>
     get_minerals ft (Some (catalog_id r)) None None None None None 1 10 db'
       = Inr \<lparr>found = 1, page_no = 1, data = [r]\<rparr>"
    by simp
qed

theorem C9_witness:
  "minerals_app sample_float_text (POST_minerals quartz_padded) [opal]
     = (Inr (Stored_mineral quartz_padded), [opal, quartz_padded]) \<and>
   get_minerals sample_float_text (Some ''AB-1234'') None None None None None 1 10 [opal, quartz_padded]
     = Inr \<lparr>found = 1, page_no = 1, data = [quartz_padded]\<rparr>"
proof -
  have p: "minerals_app sample_float_text (POST_minerals quartz_padded) [opal]
     = (Inr (Stored_mineral quartz_padded), [opal, quartz_padded])"
    by (simp add: validate_quartz_padded create_mineral_def mineral_first_def lift_outcome_def)
       (simp add: quartz_padded_def quartz_def opal_def)
  have k: "catalog_id quartz_padded = ''AB-1234''"
    by (simp add: quartz_padded_def quartz_def)
  from p k C9_create_then_read_returns_record
      [of sample_float_text quartz_padded "[opal]" "Stored_mineral quartz_padded"
          "[opal, quartz_padded]"]
  show ?thesis by simp
qed

text \<open>C9 as stated fails: a mineral submitted with blanks around its name is read back with
  the blanks, which is not its trimmed form.\<close>

theorem C9_counterexample:
  "minerals_app sample_float_text (POST_minerals quartz_padded) []
     = (Inr (Stored_mineral quartz_padded), [quartz_padded]) \<and>
   get_minerals sample_float_text (Some (catalog_id quartz_padded)) None None None None None 1 10
       [quartz_padded]
     = Inr \<lparr>found = 1, page_no = 1, data = [quartz_padded]\<rparr> \<and>
   quartz_padded \<noteq> spec_normalize_Mineral quartz_padded"
proof -
  have p: "minerals_app sample_float_text (POST_minerals quartz_padded) []
     = (Inr (Stored_mineral quartz_padded), [quartz_padded])"
    by (simp add: validate_quartz_padded create_mineral_def mineral_first_def lift_outcome_def)
  have r: "get_minerals sample_float_text (Some (catalog_id quartz_padded)) None None None None None 1 10
       [quartz_padded]
     = Inr \<lparr>found = 1, page_no = 1, data = [quartz_padded]\<rparr>"
    by (simp add: get_minerals_def minerals_query_def truthy_def offset_limit_def
        quartz_padded_def quartz_def)
  have n: "quartz_padded \<noteq> spec_normalize_Mineral quartz_padded"
    by (simp add: quartz_padded_def quartz_def spec_normalize_Mineral_def char_class_defs)
  from p r n show ?thesis by simp
qed

text \<open>
  C10. In a list query, a search parameter or a string filter parameter that is the empty
  string is treated like an absent one: the answer is the answer of the same query without
  the parameter. (The enumerated filter, \<open>rarity\<close> or \<open>rating\<close>, is never a string.)
\<close>

theorem C10_empty_string_parameter_is_absent:
  "get_minerals ft c n r oc (Some []) so p pp db = get_minerals ft c n r oc None so p pp db \<and>
   get_minerals ft (Some []) n r oc se so p pp db = get_minerals ft None n r oc se so p pp db \<and>
   get_minerals ft c (Some []) r oc se so p pp db = get_minerals ft c None r oc se so p pp db \<and>
   get_minerals ft c n r (Some []) se so p pp db = get_minerals ft c n r None se so p pp db \<and>
   get_games gi gn gg gp gr (Some []) so p pp gdb = get_games gi gn gg gp gr None so p pp gdb \<and>
   get_games (Some []) gn gg gp gr se so p pp gdb = get_games None gn gg gp gr se so p pp gdb \<and>
   get_games gi (Some []) gg gp gr se so p pp gdb = get_games gi None gg gp gr se so p pp gdb \<and>
   get_games gi gn (Some []) gp gr se so p pp gdb = get_games gi gn None gp gr se so p pp gdb \<and>
   get_games gi gn gg (Some []) gr se so p pp gdb = get_games gi gn gg None gr se so p pp gdb"
  by (simp add: get_minerals_def get_games_def minerals_query_def games_query_def truthy_def)

theorem C10_witness:
  "get_minerals sample_float_text None None None (Some []) None None 1 10 [quartz, opal]
     = Inr \<lparr>found = 2, page_no = 1, data = [quartz, opal]\<rparr> \<and>
   get_games None None (Some []) None None None None 1 10 [tetris]
     = Inr \<lparr>found = 1, page_no = 1, data = [tetris]\<rparr>"
  using C10_empty_string_parameter_is_absent
    [of sample_float_text None None None None None 1 10 "[quartz, opal]" None None None None None None
        "[tetris]"]
  by (simp add: get_minerals_def get_games_def minerals_query_def games_query_def truthy_def
      offset_limit_def)



end
